theory Spec2Isabelle
  imports Complex_Main "HOL-Library.Sublist"
begin

section \<open>Python values shared by both modules\<close>

text \<open>
  Exceptions are values. \<open>OperationalException\<close> carries its message, as the
  resolvers raise it with different texts; \<open>Raised\<close> stands for whatever a
  collaborator outside the two modules raises.
\<close>

datatype py_error =
    TypeError
  | KeyError string
  | AttributeError
  | OverflowError
  | OperationalException string
  | Raised string

text \<open>\<open>str(n)\<close> for a Python int: decimal digits, with a leading minus sign.\<close>

definition digit_char :: "nat \<Rightarrow> char" where
  "digit_char d = ''0123456789'' ! d"

fun str_nat :: "nat \<Rightarrow> string" where
  "str_nat n = (if n < 10 then [digit_char n] else str_nat (n div 10) @ [digit_char (n mod 10)])"

declare str_nat.simps [simp del]

definition str_int :: "int \<Rightarrow> string" where
  "str_int i = (if i < 0 then CHR ''-'' # str_nat (nat (- i)) else str_nat (nat i))"

section \<open>plugins/protections/max\_drawdown\_protection.py\<close>

subsection \<open>Data\<close>

text \<open>
  A \<open>datetime\<close> is the number of microseconds since 1970-01-01 00:00 (the
  resolution of Python's type), between \<open>datetime.min\<close> (0001-01-01 00:00, 719162
  days before) and \<open>datetime.max\<close> (9999-12-31 23:59:59.999999, the last microsecond
  of the 2932896th day after). A \<open>timedelta\<close> is a number of microseconds.
\<close>

type_synonym datetime = int

definition datetime_min :: datetime where
  "datetime_min = - 719162 * 86400000000"

definition datetime_max :: datetime where
  "datetime_max = 2932896 * 86400000000 + 86399999999"

definition timedelta_minutes :: "int \<Rightarrow> int" where
  "timedelta_minutes m = m * 60000000"

text \<open>
  \<open>timedelta(minutes=m)\<close>: the constructor raises \<open>OverflowError\<close> when the number of
  whole days of the duration (rounded down) has a magnitude above 999999999.
\<close>

definition timedelta :: "int \<Rightarrow> py_error + int" where
  "timedelta m =
     (if - 999999999 \<le> m div 1440 \<and> m div 1440 \<le> 999999999
      then Inr (timedelta_minutes m) else Inl OverflowError)"

text \<open>
  \<open>d - delta\<close> for a datetime and a timedelta: \<open>OverflowError\<close> when the result is
  outside the range of \<open>datetime\<close>.
\<close>

definition datetime_minus :: "datetime \<Rightarrow> int \<Rightarrow> py_error + datetime" where
  "datetime_minus d delta =
     (if datetime_min \<le> d - delta \<and> d - delta \<le> datetime_max
      then Inr (d - delta) else Inl OverflowError)"

text \<open>
  The columns of \<open>Trade\<close> the module reads (\<open>is_open\<close>, \<open>close_date\<close>, \<open>pair\<close>),
  and the profit the drawdown statistic is computed from. \<open>close_date\<close> is NULL for a
  trade that has not been closed.
\<close>

record Trade =
  pair :: string
  is_open :: bool
  close_date :: "datetime option"
  close_profit :: real

text \<open>\<open>ProtectionReturn = Tuple[bool, Optional[datetime], Optional[str]]\<close>\<close>

type_synonym ProtectionReturn = "bool \<times> datetime option \<times> string option"

text \<open>
  The attributes of a \<open>MaxDrawdown\<close> instance. \<open>stop_duration\<close> is set by
  \<open>IProtection.__init__\<close>; the other three by \<open>MaxDrawdown.__init__\<close>.
\<close>

record MaxDrawdown =
  lookback_period :: int
  trade_limit :: int
  max_allowed_drawdown :: real
  stop_duration :: int

text \<open>The keys of \<open>protection_config\<close> that \<open>__init__\<close> reads; \<open>None\<close> is an absent key.\<close>

record protection_config =
  cfg_lookback_period :: "int option"
  cfg_trade_limit :: "int option"
  cfg_max_allowed_drawdown :: "real option"

definition dict_get_default :: "'a option \<Rightarrow> 'a \<Rightarrow> 'a" where
  "dict_get_default entry dflt = (case entry of None \<Rightarrow> dflt | Some v \<Rightarrow> v)"

text \<open>
  \<open>MaxDrawdown.__init__\<close>; the first argument is the stop duration the base class's
  initialiser has stored.
\<close>

definition MaxDrawdown_init :: "int \<Rightarrow> protection_config \<Rightarrow> MaxDrawdown" where
  "MaxDrawdown_init base_stop_duration pc =
     \<lparr> lookback_period = dict_get_default (cfg_lookback_period pc) 60,
       trade_limit = dict_get_default (cfg_trade_limit pc) 1,
       max_allowed_drawdown = dict_get_default (cfg_max_allowed_drawdown pc) 0,
       stop_duration = base_stop_duration \<rparr>"

subsection \<open>Collaborators\<close>

text \<open>
  What the module calls and does not define: the drawdown statistic
  (\<open>freqtrade.data.btanalysis.calculate_max_drawdown\<close>, which returns a triple and
  may raise), the base class's \<open>calculate_lock_end(trades, stop_minutes)\<close>, and
  Python's rendering of a float in an f-string, plain (\<open>{x}\<close>) and with two
  decimals (\<open>{x:.2f}\<close>). Floats are modelled by the real numbers they denote,
  so NaN is not a value here. Every statement below holds for all collaborators.
\<close>

record collaborators =
  calculate_max_drawdown :: "Trade list \<Rightarrow> py_error + (real \<times> datetime \<times> datetime)"
  calculate_lock_end :: "Trade list \<Rightarrow> int \<Rightarrow> py_error + datetime"
  format_float :: "real \<Rightarrow> string"
  format_float_2f :: "real \<Rightarrow> string"

text \<open>
  Modelled from the spec: \<open>Trade.get_trades(filters).all()\<close>, the range query of the
  trade store, which is not part of these modules: the records of the snapshot that
  satisfy every filter, in the snapshot's order.
\<close>

definition get_trades :: "Trade list \<Rightarrow> (Trade \<Rightarrow> bool) list \<Rightarrow> Trade list" where
  "get_trades store filters = filter (\<lambda>t. list_all (\<lambda>f. f t) filters) store"

subsection \<open>The rule\<close>

text \<open>\<open>MaxDrawdown._reason\<close>\<close>

definition MaxDrawdown_reason :: "collaborators \<Rightarrow> MaxDrawdown \<Rightarrow> real \<Rightarrow> string" where
  "MaxDrawdown_reason env self drawdown =
     format_float env drawdown @ '' > '' @ format_float env (max_allowed_drawdown self)
       @ '' in '' @ str_int (lookback_period self) @ '' min, ''
       @ ''locking for '' @ str_int (stop_duration self) @ '' min.''"

text \<open>
  The first statement of \<open>_max_drawdown\<close>:
  \<open>look_back_until = date_now - timedelta(minutes=self._lookback_period)\<close>, which
  raises \<open>OverflowError\<close> when the duration or the difference is out of range.
\<close>

definition look_back_until :: "MaxDrawdown \<Rightarrow> datetime \<Rightarrow> py_error + datetime" where
  "look_back_until self date_now =
     (case timedelta (lookback_period self) of
        Inl e \<Rightarrow> Inl e
      | Inr delta \<Rightarrow> datetime_minus date_now delta)"

text \<open>
  The filter list of \<open>_max_drawdown\<close>: closed trades, closed after
  \<open>look_back_until\<close> (a NULL close date satisfies no comparison), and the pair when a
  non-empty one is given (\<open>if pair:\<close>).
\<close>

definition max_drawdown_filters :: "datetime \<Rightarrow> string \<Rightarrow> (Trade \<Rightarrow> bool) list" where
  "max_drawdown_filters look_back pair_name =
     [\<lambda>t. is_open t = False,
      \<lambda>t. (case close_date t of None \<Rightarrow> False | Some d \<Rightarrow> d > look_back)]
     @ (if pair_name \<noteq> [] then [\<lambda>t. pair t = pair_name] else [])"

text \<open>The message handed to \<open>log_once\<close>.\<close>

definition max_drawdown_log_message :: "collaborators \<Rightarrow> MaxDrawdown \<Rightarrow> string \<Rightarrow> real \<Rightarrow> string" where
  "max_drawdown_log_message env self pair_name drawdown =
     ''Trading for '' @ pair_name @ '' stopped due to '' @ format_float_2f env drawdown
       @ '' < '' @ format_float env (max_allowed_drawdown self)
       @ '' within '' @ str_int (lookback_period self) @ '' minutes.''"

text \<open>
  \<open>MaxDrawdown._max_drawdown(date_now, pair)\<close> over a snapshot of the trade store.
  The result is what the method returns or raises, and the messages it hands to
  \<open>log_once\<close>. The data frame built from the trades (\<open>pd.DataFrame(trades)\<close>) is
  the list of trades itself. The time \<open>date_now\<close> is a datetime, hence within
  \<open>datetime_min\<close> and \<open>datetime_max\<close>.
\<close>

definition MaxDrawdown_max_drawdown ::
  "collaborators \<Rightarrow> MaxDrawdown \<Rightarrow> Trade list \<Rightarrow> datetime \<Rightarrow> string
     \<Rightarrow> (py_error + ProtectionReturn) \<times> string list" where
  "MaxDrawdown_max_drawdown env self store date_now pair_name =
     (case look_back_until self date_now of
        Inl e \<Rightarrow> (Inl e, [])
      | Inr look_back \<Rightarrow>
          (let trades = get_trades store (max_drawdown_filters look_back pair_name)
           in if int (length trades) < trade_limit self then (Inr (False, None, None), [])
              else (case calculate_max_drawdown env trades of
                      Inl e \<Rightarrow> (Inl e, [])
                    | Inr (drawdown, high_date, low_date) \<Rightarrow>
                        if drawdown > max_allowed_drawdown self then
                          (let logged = [max_drawdown_log_message env self pair_name drawdown]
                           in case calculate_lock_end env trades (stop_duration self) of
                                Inl e \<Rightarrow> (Inl e, logged)
                              | Inr until \<Rightarrow>
                                  (Inr (True, Some until,
                                        Some (MaxDrawdown_reason env self drawdown)),
                                   logged))
                        else (Inr (False, None, None), []))))"

text \<open>
  A call \<open>self._max_drawdown(*args)\<close>: Python binds the positional arguments to the
  parameters \<open>date_now, pair\<close> before the body runs, and raises \<open>TypeError\<close> when
  their number is not two. (With two arguments of other types the body's first
  statement, a datetime subtraction, raises \<open>TypeError\<close> as well.)
\<close>

datatype py_arg = ArgDatetime datetime | ArgStr string

fun call_max_drawdown ::
  "collaborators \<Rightarrow> MaxDrawdown \<Rightarrow> Trade list \<Rightarrow> py_arg list
     \<Rightarrow> (py_error + ProtectionReturn) \<times> string list" where
  "call_max_drawdown env self store [ArgDatetime date_now, ArgStr pair_name] =
     MaxDrawdown_max_drawdown env self store date_now pair_name"
| "call_max_drawdown env self store args = (Inl TypeError, [])"

text \<open>\<open>MaxDrawdown.global_stop(date_now)\<close>: \<open>return self._max_drawdown(date_now)\<close>\<close>

definition MaxDrawdown_global_stop ::
  "collaborators \<Rightarrow> MaxDrawdown \<Rightarrow> Trade list \<Rightarrow> datetime
     \<Rightarrow> (py_error + ProtectionReturn) \<times> string list" where
  "MaxDrawdown_global_stop env self store date_now =
     call_max_drawdown env self store [ArgDatetime date_now]"

text \<open>\<open>MaxDrawdown.stop_per_pair(pair, date_now)\<close>: \<open>return False, None, None\<close>\<close>

definition MaxDrawdown_stop_per_pair ::
  "collaborators \<Rightarrow> MaxDrawdown \<Rightarrow> Trade list \<Rightarrow> string \<Rightarrow> datetime
     \<Rightarrow> (py_error + ProtectionReturn) \<times> string list" where
  "MaxDrawdown_stop_per_pair env self store pair_name date_now = (Inr (False, None, None), [])"

text \<open>
  The invariant of a verdict: the lock end and the reason are present exactly when
  the verdict is triggered.
\<close>

fun verdict_consistent :: "ProtectionReturn \<Rightarrow> bool" where
  "verdict_consistent (triggered, lock_until, reason) =
     ((lock_until \<noteq> None) = triggered \<and> (reason \<noteq> None) = triggered)"


section \<open>resolvers/hyperopt\_resolver.py\<close>

subsection \<open>Paths and configuration values\<close>

text \<open>
  A \<open>pathlib.Path\<close> is its sequence of components (\<open>Path.parts\<close>, POSIX flavour), the
  root \<open>/\<close> being a component of its own.
\<close>

datatype Path = Path (parts: "string list")

definition joinpath :: "Path \<Rightarrow> string \<Rightarrow> Path" where
  "joinpath p name = Path (parts p @ [name])"

definition parent :: "Path \<Rightarrow> Path" where
  "parent p = Path (butlast (parts p))"

fun split_on :: "char \<Rightarrow> string \<Rightarrow> string list" where
  "split_on sep [] = [[]]"
| "split_on sep (c # cs) =
     (if c = sep then [] # split_on sep cs
      else (case split_on sep cs of [] \<Rightarrow> [[c]] | w # ws \<Rightarrow> (c # w) # ws))"

text \<open>\<open>Path(s)\<close> for a string: empty and \<open>.\<close> components are dropped.\<close>

definition path_of_str :: "string \<Rightarrow> Path" where
  "path_of_str s =
     Path ((if s \<noteq> [] \<and> hd s = CHR ''/'' then [''/''] else [])
           @ filter (\<lambda>c. c \<noteq> [] \<and> c \<noteq> ''.'') (split_on CHR ''/'' s))"

fun join_with :: "string \<Rightarrow> string list \<Rightarrow> string" where
  "join_with sep [] = []"
| "join_with sep [x] = x"
| "join_with sep (x # y # ys) = x @ sep @ join_with sep (y # ys)"

text \<open>\<open>str(p)\<close> for a path.\<close>

definition path_str :: "Path \<Rightarrow> string" where
  "path_str p =
     (case parts p of
        [] \<Rightarrow> ''.''
      | c # cs \<Rightarrow> if c = ''/'' then ''/'' @ join_with ''/'' cs else join_with ''/'' (c # cs))"

text \<open>The values a configuration dictionary holds under the keys the resolvers read.\<close>

datatype cval = VNone | VBool bool | VInt int | VStr string | VPath Path

type_synonym config = "string \<rightharpoonup> cval"

fun py_truthy :: "cval \<Rightarrow> bool" where
  "py_truthy VNone = False"
| "py_truthy (VBool b) = b"
| "py_truthy (VInt i) = (i \<noteq> 0)"
| "py_truthy (VStr s) = (s \<noteq> [])"
| "py_truthy (VPath p) = True"

fun py_str :: "cval \<Rightarrow> string" where
  "py_str VNone = ''None''"
| "py_str (VBool b) = (if b then ''True'' else ''False'')"
| "py_str (VInt i) = str_int i"
| "py_str (VStr s) = s"
| "py_str (VPath p) = path_str p"

text \<open>
  \<open>config or {}\<close> (\<open>None\<close> and the empty dictionary both give the empty dictionary),
  \<open>config.get(key)\<close> and \<open>config[key]\<close>.
\<close>

definition config_or_empty :: "config option \<Rightarrow> config" where
  "config_or_empty config = (case config of None \<Rightarrow> Map.empty | Some c \<Rightarrow> c)"

definition dict_get :: "config \<Rightarrow> string \<Rightarrow> cval" where
  "dict_get config key = (case config key of None \<Rightarrow> VNone | Some v \<Rightarrow> v)"

definition dict_item :: "config \<Rightarrow> string \<Rightarrow> py_error + cval" where
  "dict_item config key = (case config key of None \<Rightarrow> Inl (KeyError key) | Some v \<Rightarrow> Inr v)"

text \<open>\<open>Path(v)\<close>: a string or a path is accepted, anything else is a \<open>TypeError\<close>.\<close>

fun path_of :: "cval \<Rightarrow> py_error + Path" where
  "path_of (VStr s) = Inr (path_of_str s)"
| "path_of (VPath p) = Inr p"
| "path_of v = Inl TypeError"

text \<open>\<open>v.joinpath(name)\<close>: only a path has the method.\<close>

fun cval_joinpath :: "cval \<Rightarrow> string \<Rightarrow> py_error + Path" where
  "cval_joinpath (VPath p) name = Inr (joinpath p name)"
| "cval_joinpath v name = Inl AttributeError"

subsection \<open>Objects\<close>

text \<open>
  A plugin instance carries a reference to its class and its own attribute
  dictionary; class objects live in a store, shared by all their instances.
  Attribute lookup on an instance reads the instance's dictionary first and the
  class's attributes (inherited ones included) after it.
\<close>

datatype attr_val = Method | StrAttr string

type_synonym attrs = "string \<rightharpoonup> attr_val"

type_synonym class_id = nat

datatype py_object = Instance (obj_class: class_id) (obj_dict: attrs)

type_synonym class_store = "class_id \<Rightarrow> attrs"

definition py_getattr :: "class_store \<Rightarrow> py_object \<Rightarrow> string \<Rightarrow> attr_val option" where
  "py_getattr cs ob name =
     (case obj_dict ob name of Some v \<Rightarrow> Some v | None \<Rightarrow> cs (obj_class ob) name)"

definition py_hasattr :: "class_store \<Rightarrow> py_object \<Rightarrow> string \<Rightarrow> bool" where
  "py_hasattr cs ob name = (py_getattr cs ob name \<noteq> None)"

text \<open>\<open>ob.__class__.name = v\<close>\<close>

definition set_class_attr :: "class_store \<Rightarrow> py_object \<Rightarrow> string \<Rightarrow> attr_val \<Rightarrow> class_store" where
  "set_class_attr cs ob name v = cs(obj_class ob := (cs (obj_class ob))(name \<mapsto> v))"

subsection \<open>Collaborators\<close>

datatype object_type = IHyperOpt | IHyperOptLoss

type_synonym kwargs = "(string \<times> config) list"

text \<open>
  What the module uses and does not define: its own location \<open>__file__\<close>,
  \<open>Path.resolve\<close> (which reads the file system), and \<open>IResolver._load_object\<close>,
  which searches the given paths, may define classes while importing modules, and
  returns an instance, \<open>None\<close>, or raises.
\<close>

record resolver_env =
  module_file :: Path
  resolve :: "Path \<Rightarrow> Path"
  load_object :: "class_store \<Rightarrow> Path list \<Rightarrow> object_type \<Rightarrow> cval \<Rightarrow> kwargs
                    \<Rightarrow> (py_error + py_object option) \<times> class_store"

definition single_quoted :: "string \<Rightarrow> string" where
  "single_quoted s = [CHR 0x27] @ s @ [CHR 0x27]"

subsection \<open>The search path\<close>

text \<open>
  The list \<open>abs_paths\<close> that \<open>_load_hyperopt\<close> and \<open>_load_hyperoptloss\<close> build, by the
  same statements: the built-in location, the user data location before it, and the
  extra directory inserted at index 0 when it is truthy.
\<close>

definition hyperopt_abs_paths :: "resolver_env \<Rightarrow> config \<Rightarrow> cval \<Rightarrow> py_error + Path list" where
  "hyperopt_abs_paths env config extra_dir =
     (let current_path = resolve env (joinpath (parent (parent (module_file env))) ''optimize'')
      in case dict_item config ''user_data_dir'' of
           Inl e \<Rightarrow> Inl e
         | Inr user_data_dir \<Rightarrow>
             (case cval_joinpath user_data_dir ''hyperopts'' of
                Inl e \<Rightarrow> Inl e
              | Inr user_path \<Rightarrow>
                  (let abs_paths = [user_path, current_path]
                   in if py_truthy extra_dir then
                        (case path_of extra_dir of
                           Inl e \<Rightarrow> Inl e
                         | Inr p \<Rightarrow> Inr (resolve env p # abs_paths))
                      else Inr abs_paths)))"

subsection \<open>HyperOptResolver\<close>

definition hyperopt_not_found_message :: "cval \<Rightarrow> string" where
  "hyperopt_not_found_message hyperopt_name =
     ''Impossible to load Hyperopt '' @ single_quoted (py_str hyperopt_name)
       @ ''. This class does not exist or contains Python code errors.''"

text \<open>
  \<open>HyperOptResolver._load_hyperopt\<close>. An instance is truthy, \<open>None\<close> is not
  (\<open>if hyperopt:\<close>).
\<close>

definition HyperOptResolver_load_hyperopt ::
  "resolver_env \<Rightarrow> cval \<Rightarrow> config \<Rightarrow> cval \<Rightarrow> class_store \<Rightarrow> (py_error + py_object) \<times> class_store" where
  "HyperOptResolver_load_hyperopt env hyperopt_name config extra_dir cs =
     (case hyperopt_abs_paths env config extra_dir of
        Inl e \<Rightarrow> (Inl e, cs)
      | Inr abs_paths \<Rightarrow>
          (case load_object env cs abs_paths IHyperOpt hyperopt_name [(''config'', config)] of
             (Inl e, cs') \<Rightarrow> (Inl e, cs')
           | (Inr (Some hyperopt), cs') \<Rightarrow> (Inr hyperopt, cs')
           | (Inr None, cs') \<Rightarrow>
               (Inl (OperationalException (hyperopt_not_found_message hyperopt_name)), cs')))"

definition no_hyperopt_message :: string where
  "no_hyperopt_message =
     ''No Hyperopt set. Please use `--customhyperopt` to specify the Hyperopt class to use.''"

definition no_populate_buy_trend_warning :: string where
  "no_populate_buy_trend_warning =
     ''Hyperopt class does not provide populate_buy_trend() method. ''
     @ ''Using populate_buy_trend from the strategy.''"

definition no_populate_sell_trend_warning :: string where
  "no_populate_sell_trend_warning =
     ''Hyperopt class does not provide populate_sell_trend() method. ''
     @ ''Using populate_sell_trend from the strategy.''"

text \<open>
  \<open>HyperOptResolver.__init__\<close>: the value of the slot \<open>hyperopt\<close> or the exception,
  the class store afterwards, and the warnings logged.
\<close>

definition HyperOptResolver_init ::
  "resolver_env \<Rightarrow> config option \<Rightarrow> class_store
     \<Rightarrow> (py_error + py_object) \<times> class_store \<times> string list" where
  "HyperOptResolver_init env config_arg cs =
     (let config = config_or_empty config_arg
      in if \<not> py_truthy (dict_get config ''hyperopt'') then
           (Inl (OperationalException no_hyperopt_message), cs, [])
         else
           (case dict_item config ''hyperopt'' of
              Inl e \<Rightarrow> (Inl e, cs, [])
            | Inr hyperopt_name \<Rightarrow>
                (case HyperOptResolver_load_hyperopt env hyperopt_name config
                        (dict_get config ''hyperopt_path'') cs of
                   (Inl e, cs') \<Rightarrow> (Inl e, cs', [])
                 | (Inr hyperopt, cs') \<Rightarrow>
                     (Inr hyperopt, cs',
                      (if \<not> py_hasattr cs' hyperopt ''populate_buy_trend''
                       then [no_populate_buy_trend_warning] else [])
                      @ (if \<not> py_hasattr cs' hyperopt ''populate_sell_trend''
                         then [no_populate_sell_trend_warning] else [])))))"

subsection \<open>HyperOptLossResolver\<close>

definition hyperoptloss_not_found_message :: "cval \<Rightarrow> string" where
  "hyperoptloss_not_found_message hyper_loss_name =
     ''Impossible to load HyperoptLoss '' @ single_quoted (py_str hyper_loss_name)
       @ ''. This class does not exist or contains Python code errors.''"

text \<open>\<open>HyperOptLossResolver._load_hyperoptloss\<close>; no constructor arguments are passed.\<close>

definition HyperOptLossResolver_load_hyperoptloss ::
  "resolver_env \<Rightarrow> cval \<Rightarrow> config \<Rightarrow> cval \<Rightarrow> class_store \<Rightarrow> (py_error + py_object) \<times> class_store" where
  "HyperOptLossResolver_load_hyperoptloss env hyper_loss_name config extra_dir cs =
     (case hyperopt_abs_paths env config extra_dir of
        Inl e \<Rightarrow> (Inl e, cs)
      | Inr abs_paths \<Rightarrow>
          (case load_object env cs abs_paths IHyperOptLoss hyper_loss_name [] of
             (Inl e, cs') \<Rightarrow> (Inl e, cs')
           | (Inr (Some hyperoptloss), cs') \<Rightarrow> (Inr hyperoptloss, cs')
           | (Inr None, cs') \<Rightarrow>
               (Inl (OperationalException (hyperoptloss_not_found_message hyper_loss_name)), cs')))"

definition no_hyperopt_loss_message :: string where
  "no_hyperopt_loss_message =
     ''No Hyperopt Loss Function set. Please use `--hyperopt-loss` to specify ''
     @ ''the Hyperopt Loss Function class to use.''"

definition no_loss_function_message :: "cval \<Rightarrow> string" where
  "no_loss_function_message hyperoptloss_name =
     ''Found hyperopt '' @ py_str hyperoptloss_name
       @ '' does not implement `hyperopt_loss_function`.''"

text \<open>
  \<open>HyperOptLossResolver.__init__\<close>: the value of the slot \<open>hyperoptloss\<close> or the
  exception, and the class store afterwards.
\<close>

definition HyperOptLossResolver_init ::
  "resolver_env \<Rightarrow> config option \<Rightarrow> class_store \<Rightarrow> (py_error + py_object) \<times> class_store" where
  "HyperOptLossResolver_init env config_arg cs =
     (let config = config_or_empty config_arg
      in if \<not> py_truthy (dict_get config ''hyperopt_loss'') then
           (Inl (OperationalException no_hyperopt_loss_message), cs)
         else
           (case dict_item config ''hyperopt_loss'' of
              Inl e \<Rightarrow> (Inl e, cs)
            | Inr hyperoptloss_name \<Rightarrow>
                (case HyperOptLossResolver_load_hyperoptloss env hyperoptloss_name config
                        (dict_get config ''hyperopt_path'') cs of
                   (Inl e, cs') \<Rightarrow> (Inl e, cs')
                 | (Inr hyperoptloss, cs') \<Rightarrow>
                     (case dict_item config ''ticker_interval'' of
                        Inl e \<Rightarrow> (Inl e, cs')
                      | Inr ticker_interval \<Rightarrow>
                          (let cs'' = set_class_attr cs' hyperoptloss ''ticker_interval''
                                        (StrAttr (py_str ticker_interval))
                           in if \<not> py_hasattr cs'' hyperoptloss ''hyperopt_loss_function'' then
                                (Inl (OperationalException
                                        (no_loss_function_message hyperoptloss_name)), cs'')
                              else (Inr hyperoptloss, cs''))))))"

subsection \<open>The search itself\<close>

text \<open>
  Modelled from the spec: \<open>IResolver._load_object\<close>, which the module inherits and
  does not define. The spec, section 4.1: iterate the search locations in priority
  order; within each location inspect the classes of its loadable modules for one
  whose name matches and whose declared base matches the target contract; return the
  first match found across the locations, instantiated with the constructor
  arguments. A location is given by the classes its modules define, in the order
  they are enumerated; a class by its name, its base, its class object and what its
  constructor stores on a new instance.
\<close>

record plugin_class =
  plugin_name :: string
  plugin_base :: object_type
  plugin_id :: class_id
  plugin_new :: "kwargs \<Rightarrow> attrs"

type_synonym file_system = "Path \<Rightarrow> plugin_class list"

definition plugin_matches :: "object_type \<Rightarrow> cval \<Rightarrow> plugin_class \<Rightarrow> bool" where
  "plugin_matches object_type object_name c =
     (VStr (plugin_name c) = object_name \<and> plugin_base c = object_type)"

fun IResolver_load_object ::
  "file_system \<Rightarrow> class_store \<Rightarrow> Path list \<Rightarrow> object_type \<Rightarrow> cval \<Rightarrow> kwargs
     \<Rightarrow> (py_error + py_object option) \<times> class_store" where
  "IResolver_load_object fs cs [] object_type object_name kw = (Inr None, cs)"
| "IResolver_load_object fs cs (p # ps) object_type object_name kw =
     (case find (plugin_matches object_type object_name) (fs p) of
        Some c \<Rightarrow> (Inr (Some (Instance (plugin_id c) (plugin_new c kw))), cs)
      | None \<Rightarrow> IResolver_load_object fs cs ps object_type object_name kw)"

section \<open>Sample inputs\<close>

subsection \<open>A drawdown scenario\<close>

text \<open>
  The scenario of the specification: a lookback of 60 minutes, a trade limit of 1, an
  allowed drawdown of 0.10 and a stop duration of 30 minutes. The store holds two
  trades closed within the hour before minute 1000, an older closed trade and an
  open one. The sample statistic reports a drawdown of 0.15; the sample lock end is
  the latest close date of the trades plus the stop duration; the sample rendering
  of floats knows the two numbers of the scenario.
\<close>

definition minute :: "int \<Rightarrow> datetime" where
  "minute m = m * 60000000"

definition scenario_rule :: MaxDrawdown where
  "scenario_rule = MaxDrawdown_init 30
     \<lparr> cfg_lookback_period = Some 60, cfg_trade_limit = Some 1,
       cfg_max_allowed_drawdown = Some 0.10 \<rparr>"

definition scenario_store :: "Trade list" where
  "scenario_store =
     [\<lparr> pair = ''ETH/BTC'', is_open = False, close_date = Some (minute 900), close_profit = 0.02 \<rparr>,
      \<lparr> pair = ''ETH/BTC'', is_open = False, close_date = Some (minute 950), close_profit = 0.05 \<rparr>,
      \<lparr> pair = ''XRP/BTC'', is_open = False, close_date = Some (minute 990), close_profit = - 0.15 \<rparr>,
      \<lparr> pair = ''LTC/BTC'', is_open = True, close_date = None, close_profit = 0 \<rparr>]"

text \<open>The scenario's rule with a trade limit of 3, and with a lookback of 2000000000 minutes.\<close>

definition strict_rule :: MaxDrawdown where
  "strict_rule = scenario_rule\<lparr>trade_limit := 3\<rparr>"

definition far_rule :: MaxDrawdown where
  "far_rule = scenario_rule\<lparr>lookback_period := 2000000000\<rparr>"

definition scenario_format :: "real \<Rightarrow> string" where
  "scenario_format x = (if x = 0.15 then ''0.15'' else if x = 0.1 then ''0.1'' else ''?'')"

definition latest_close :: "Trade list \<Rightarrow> datetime" where
  "latest_close ts = fold (\<lambda>t m. case close_date t of None \<Rightarrow> m | Some d \<Rightarrow> max d m) ts 0"

definition scenario_env :: collaborators where
  "scenario_env =
     \<lparr> calculate_max_drawdown = (\<lambda>ts. Inr (0.15, minute 950, minute 990)),
       calculate_lock_end = (\<lambda>ts m. Inr (latest_close ts + timedelta_minutes m)),
       format_float = scenario_format,
       format_float_2f = scenario_format \<rparr>"

subsection \<open>Resolver environments\<close>

definition sample_module_file :: Path where
  "sample_module_file = Path [''/'', ''freqtrade'', ''resolvers'', ''hyperopt_resolver.py'']"

definition empty_store :: class_store where
  "empty_store = (\<lambda>c. Map.empty)"

text \<open>A search that raises as soon as it is started.\<close>

definition raising_env :: resolver_env where
  "raising_env =
     \<lparr> module_file = sample_module_file, resolve = (\<lambda>p. p),
       load_object = (\<lambda>cs ps ty nm kw. (Inl (Raised ''search path touched''), cs)) \<rparr>"

text \<open>A search that finds nothing, and a configuration naming a class that does not exist.\<close>

definition no_match_env :: resolver_env where
  "no_match_env =
     \<lparr> module_file = sample_module_file, resolve = (\<lambda>p. p),
       load_object = (\<lambda>cs ps ty nm kw. (Inr None, cs)) \<rparr>"

definition missing_config :: config where
  "missing_config =
     [''hyperopt'' \<mapsto> VStr ''Missing'', ''hyperopt_loss'' \<mapsto> VStr ''Missing'',
      ''user_data_dir'' \<mapsto> VPath (Path [''/'', ''user_data''])]"

text \<open>A search that returns a given instance.\<close>

definition found_env :: "py_object \<Rightarrow> resolver_env" where
  "found_env ob =
     \<lparr> module_file = sample_module_file, resolve = (\<lambda>p. p),
       load_object = (\<lambda>cs ps ty nm kw. (Inr (Some ob), cs)) \<rparr>"

text \<open>
  Three locations that each define a class \<open>MyHyperOpt\<close>, told apart by their class
  objects, and a configuration that names the class and an extra directory.
\<close>

definition extra_location :: Path where
  "extra_location = Path [''/'', ''extra'']"

definition user_location :: Path where
  "user_location = Path [''/'', ''user_data'', ''hyperopts'']"

definition builtin_location :: Path where
  "builtin_location = Path [''/'', ''freqtrade'', ''optimize'']"

definition sample_plugin :: "object_type \<Rightarrow> class_id \<Rightarrow> plugin_class" where
  "sample_plugin ty n =
     \<lparr> plugin_name = ''MyHyperOpt'', plugin_base = ty, plugin_id = n,
       plugin_new = (\<lambda>kw. Map.empty) \<rparr>"

definition sample_fs :: file_system where
  "sample_fs p =
     (if p = extra_location then [sample_plugin IHyperOptLoss 10, sample_plugin IHyperOpt 11]
      else if p = user_location then [sample_plugin IHyperOpt 21]
      else if p = builtin_location then [sample_plugin IHyperOpt 31, sample_plugin IHyperOptLoss 30]
      else [])"

definition sample_env :: resolver_env where
  "sample_env =
     \<lparr> module_file = sample_module_file, resolve = (\<lambda>p. p),
       load_object = IResolver_load_object sample_fs \<rparr>"

definition sample_config :: config where
  "sample_config =
     [''hyperopt'' \<mapsto> VStr ''MyHyperOpt'', ''hyperopt_loss'' \<mapsto> VStr ''MyHyperOpt'',
      ''user_data_dir'' \<mapsto> VPath (Path [''/'', ''user_data'']),
      ''hyperopt_path'' \<mapsto> VStr ''/extra'', ''ticker_interval'' \<mapsto> VStr ''5m'']"

text \<open>
  Instances of class 7: one with an empty dictionary, one with another attribute,
  and one whose constructor has stored a \<open>ticker_interval\<close> of its own. Class 7
  without attributes (\<open>empty_store\<close>), with \<open>populate_buy_trend\<close> only, and with
  \<open>hyperopt_loss_function\<close>.
\<close>

definition plain_object :: py_object where
  "plain_object = Instance 7 Map.empty"

definition earlier_object :: py_object where
  "earlier_object = Instance 7 [''created'' \<mapsto> StrAttr ''earlier'']"

definition shadowing_object :: py_object where
  "shadowing_object = Instance 7 [''ticker_interval'' \<mapsto> StrAttr ''1h'']"

definition hyperopt_store :: class_store where
  "hyperopt_store = (\<lambda>c. if c = 7 then [''populate_buy_trend'' \<mapsto> Method] else Map.empty)"

definition loss_store :: class_store where
  "loss_store = (\<lambda>c. if c = 7 then [''hyperopt_loss_function'' \<mapsto> Method] else Map.empty)"

definition config_without_ticker_interval :: config where
  "config_without_ticker_interval =
     [''hyperopt'' \<mapsto> VStr ''MyOpt'', ''hyperopt_loss'' \<mapsto> VStr ''MyLoss'',
      ''user_data_dir'' \<mapsto> VPath (Path [''/'', ''user_data''])]"

section \<open>Auxiliary facts\<close>

lemmas scenario_defs =
  scenario_rule_def scenario_store_def scenario_env_def scenario_format_def
  MaxDrawdown_init_def dict_get_default_def minute_def latest_close_def timedelta_minutes_def
  get_trades_def max_drawdown_filters_def look_back_until_def timedelta_def datetime_minus_def
  datetime_min_def datetime_max_def strict_rule_def far_rule_def

lemmas resolver_defs =
  HyperOptResolver_init_def HyperOptLossResolver_init_def
  HyperOptResolver_load_hyperopt_def HyperOptLossResolver_load_hyperoptloss_def
  hyperopt_abs_paths_def config_or_empty_def dict_get_def dict_item_def

lemma str_int_60: "str_int 60 = ''60''"
  by (simp add: str_int_def str_nat.simps digit_char_def)

lemma str_int_30: "str_int 30 = ''30''"
  by (simp add: str_int_def str_nat.simps digit_char_def)

lemma sublist_single_quoted: "sublist s (a @ single_quoted s @ b)"
  unfolding single_quoted_def sublist_def by (metis append.assoc)

lemma name_in_hyperopt_not_found_message:
  "sublist (py_str nm) (hyperopt_not_found_message nm)"
  unfolding hyperopt_not_found_message_def by (rule sublist_single_quoted)

lemma name_in_hyperoptloss_not_found_message:
  "sublist (py_str nm) (hyperoptloss_not_found_message nm)"
  unfolding hyperoptloss_not_found_message_def by (rule sublist_single_quoted)

text \<open>The search path does not depend on the search function.\<close>

lemma hyperopt_abs_paths_load_object:
  "hyperopt_abs_paths (env\<lparr>load_object := f\<rparr>) config extra_dir
     = hyperopt_abs_paths env config extra_dir"
  by (simp add: hyperopt_abs_paths_def Let_def split: sum.split)

text \<open>The modelled search returns the instance of the first location that has a match.\<close>

lemma load_object_first_match:
  assumes "\<forall>q\<in>set before. find (plugin_matches ty nm) (fs q) = None"
    and "find (plugin_matches ty nm) (fs p) = Some c"
  shows "IResolver_load_object fs cs (before @ p # after) ty nm kw
           = (Inr (Some (Instance (plugin_id c) (plugin_new c kw))), cs)"
  using assms by (induction before) simp_all

text \<open>Setting a class attribute leaves the presence of every other attribute as it was.\<close>

lemma hasattr_set_class_attr_other:
  "name \<noteq> name' \<Longrightarrow>
     py_hasattr (set_class_attr cs ob name v) ob' name' = py_hasattr cs ob' name'"
  by (simp add: py_hasattr_def py_getattr_def set_class_attr_def split: option.split)

text \<open>
  The count test of \<open>_max_drawdown\<close> (lines 58 to 60): once the window start is
  computed, fewer matching trades than \<open>trade_limit\<close> give \<open>(False, None, None)\<close>.
\<close>

lemma max_drawdown_count_test:
  assumes "look_back_until self date_now = Inr look_back"
    and "int (length (get_trades store (max_drawdown_filters look_back pair_name))) < trade_limit self"
  shows "MaxDrawdown_max_drawdown env self store date_now pair_name = (Inr (False, None, None), [])"
  using assms by (simp add: MaxDrawdown_max_drawdown_def)

text \<open>
  With a lookback of 2000000000 minutes the window would start before year 1, and
  \<open>_max_drawdown\<close> raises \<open>OverflowError\<close> at its first statement.
\<close>

lemma max_drawdown_overflow:
  "MaxDrawdown_max_drawdown env far_rule store (minute 1000) pair_name = (Inl OverflowError, [])"
  by (simp add: MaxDrawdown_max_drawdown_def scenario_defs)

section \<open>The drawdown guard\<close>

text \<open>
  C1, as amended. When \<open>_max_drawdown\<close> has computed the start of the lookback
  window and finds at least \<open>trade_limit\<close> matching trades, the statistic returns a
  drawdown strictly above \<open>max_allowed_drawdown\<close> and \<open>calculate_lock_end\<close> returns,
  the verdict is triggered, its lock end is the value
  \<open>calculate_lock_end\<close> returned for the matched trades and the stop duration (the
  evaluation time is not among its arguments), and its reason is the drawdown, the
  threshold, the lookback and the stop duration laid out as
  \<open>D > T in L min, locking for S min.\<close>
\<close>

theorem max_drawdown_triggered_verdict:
  assumes "look_back_until self date_now = Inr look_back"
    and "trades = get_trades store (max_drawdown_filters look_back pair_name)"
    and "\<not> int (length trades) < trade_limit self"
    and "calculate_max_drawdown env trades = Inr (drawdown, high_date, low_date)"
    and "drawdown > max_allowed_drawdown self"
    and "calculate_lock_end env trades (stop_duration self) = Inr until"
  shows "fst (MaxDrawdown_max_drawdown env self store date_now pair_name) =
           Inr (True, Some until,
                Some (format_float env drawdown @ '' > ''
                      @ format_float env (max_allowed_drawdown self)
                      @ '' in '' @ str_int (lookback_period self) @ '' min, locking for ''
                      @ str_int (stop_duration self) @ '' min.''))"
  using assms by (simp add: MaxDrawdown_max_drawdown_def MaxDrawdown_reason_def)

text \<open>
  The scenario at minute 1000: the two trades closed at minutes 950 and 990 match,
  and the verdict carries the reason of the specification's scenario. With the
  sample lock end the lock runs until minute 1020, thirty minutes after the last
  close.
\<close>

theorem max_drawdown_triggered_verdict_witness:
  "fst (MaxDrawdown_max_drawdown scenario_env scenario_rule scenario_store (minute 1000) []) =
     Inr (True, Some (minute 1020), Some ''0.15 > 0.1 in 60 min, locking for 30 min.'')"
  using max_drawdown_triggered_verdict [of scenario_rule "minute 1000" "minute 940"
      "[scenario_store ! 1, scenario_store ! 2]" scenario_store "[]" scenario_env
      "0.15" "minute 950" "minute 990" "minute 1020"]
  by (simp add: scenario_defs str_int_60 str_int_30)

text \<open>
  C1 as stated fails: the lock end is not \<open>now\<close> plus the stop duration. At minutes
  1000 and 1005 the same two trades match, so \<open>calculate_lock_end\<close> receives the same
  arguments, and no such function returns \<open>now\<close> plus thirty minutes at both times.
  With the sample lock end the lock of minute 1000 runs until minute 1020, not 1030.
\<close>

theorem lock_until_is_not_now_plus_stop_counterexample:
  "fst (MaxDrawdown_max_drawdown scenario_env scenario_rule scenario_store (minute 1000) []) =
     Inr (True, Some (minute 1020), Some ''0.15 > 0.1 in 60 min, locking for 30 min.'')
   \<and> minute 1020 \<noteq> minute 1000 + timedelta_minutes 30
   \<and> \<not> (\<exists>lock_end.
        fst (MaxDrawdown_max_drawdown (scenario_env\<lparr>calculate_lock_end := lock_end\<rparr>)
               scenario_rule scenario_store (minute 1000) [])
          = Inr (True, Some (minute 1000 + timedelta_minutes 30),
                 Some ''0.15 > 0.1 in 60 min, locking for 30 min.'')
      \<and> fst (MaxDrawdown_max_drawdown (scenario_env\<lparr>calculate_lock_end := lock_end\<rparr>)
               scenario_rule scenario_store (minute 1005) [])
          = Inr (True, Some (minute 1005 + timedelta_minutes 30),
                 Some ''0.15 > 0.1 in 60 min, locking for 30 min.''))"
  by (auto simp add: MaxDrawdown_max_drawdown_def MaxDrawdown_reason_def scenario_defs
      str_int_60 str_int_30 split: sum.splits)

text \<open>
  C2. The claim is that \<open>global_stop\<close> returns a verdict that is not triggered when no
  trade matches. The method calls \<open>_max_drawdown\<close> with one argument where two are
  required, so it raises \<open>TypeError\<close> for every rule, store and time, an empty store
  included.
\<close>

theorem global_stop_raises_TypeError:
  "MaxDrawdown_global_stop env self store date_now = (Inl TypeError, [])"
  by (simp add: MaxDrawdown_global_stop_def)

text \<open>
  C3. The claim is that an evaluation over a history with fewer matching trades than
  \<open>trade_limit\<close> yields a verdict that is not triggered. The scenario with a trade
  limit of 3 at minute 1000: the window starts at minute 940, two trades match, and the
  body of \<open>_max_drawdown\<close>, entered with both arguments, would return
  \<open>(False, None, None)\<close>; the evaluation method \<open>global_stop\<close> never enters it and raises
  \<open>TypeError\<close>, so no verdict is yielded.
\<close>

theorem global_stop_below_trade_limit_raises:
  "look_back_until strict_rule (minute 1000) = Inr (minute 940)
   \<and> int (length (get_trades scenario_store (max_drawdown_filters (minute 940) []))) = 2
   \<and> trade_limit strict_rule = 3
   \<and> MaxDrawdown_max_drawdown scenario_env strict_rule scenario_store (minute 1000) []
       = (Inr (False, None, None), [])
   \<and> MaxDrawdown_global_stop scenario_env strict_rule scenario_store (minute 1000)
       = (Inl TypeError, [])"
  by (simp add: MaxDrawdown_max_drawdown_def MaxDrawdown_global_stop_def scenario_defs)

text \<open>
  C4. \<open>stop_per_pair\<close> returns the verdict \<open>(False, None, None)\<close> for every pair, time,
  rule and trade store.
\<close>

theorem stop_per_pair_never_triggers:
  "MaxDrawdown_stop_per_pair env self store pair_name date_now = (Inr (False, None, None), [])"
  by (simp add: MaxDrawdown_stop_per_pair_def)

text \<open>
  C5. Every verdict that \<open>_max_drawdown\<close>, \<open>global_stop\<close> or \<open>stop_per_pair\<close> returns has
  its lock end and its reason present exactly when it is triggered.
\<close>

theorem verdicts_consistent:
  "(fst (MaxDrawdown_max_drawdown env self store date_now pair_name) = Inr v
      \<longrightarrow> verdict_consistent v)
   \<and> (fst (MaxDrawdown_global_stop env self store date_now) = Inr v \<longrightarrow> verdict_consistent v)
   \<and> (fst (MaxDrawdown_stop_per_pair env self store pair_name date_now) = Inr v
      \<longrightarrow> verdict_consistent v)"
  by (auto simp add: MaxDrawdown_max_drawdown_def MaxDrawdown_global_stop_def
      MaxDrawdown_stop_per_pair_def Let_def split: if_splits sum.splits prod.splits)

text \<open>
  A triggered verdict (minute 1000) and one that is not (minute 2000, when no trade
  is inside the window) of the scenario.
\<close>

theorem verdicts_consistent_witness:
  "fst (MaxDrawdown_max_drawdown scenario_env scenario_rule scenario_store (minute 1000) [])
     = Inr (True, Some (minute 1020), Some ''0.15 > 0.1 in 60 min, locking for 30 min.'')
   \<and> verdict_consistent (True, Some (minute 1020), Some ''0.15 > 0.1 in 60 min, locking for 30 min.'')
   \<and> fst (MaxDrawdown_max_drawdown scenario_env scenario_rule scenario_store (minute 2000) [])
     = Inr (False, None, None)
   \<and> verdict_consistent (False, None, None)"
  using verdicts_consistent [of scenario_env scenario_rule scenario_store "minute 1000" "[]"
      "(True, Some (minute 1020), Some ''0.15 > 0.1 in 60 min, locking for 30 min.'')"]
    verdicts_consistent [of scenario_env scenario_rule scenario_store "minute 2000" "[]"
      "(False, None, None)"]
  by (simp add: MaxDrawdown_max_drawdown_def MaxDrawdown_reason_def scenario_defs
      str_int_60 str_int_30)

section \<open>The resolvers\<close>

text \<open>
  C6. When the value under \<open>hyperopt\<close> (for \<open>HyperOptResolver\<close>) or \<open>hyperopt_loss\<close> (for
  \<open>HyperOptLossResolver\<close>) is absent or falsy, the empty string included, construction
  fails with the resolver's "not set" \<open>OperationalException\<close>, for every search
  function, path resolution and module location: none of them is consulted, the class
  store is returned as it was and nothing is logged.
\<close>

theorem resolver_not_configured:
  "(\<not> py_truthy (dict_get (config_or_empty config_arg) ''hyperopt'') \<longrightarrow>
      HyperOptResolver_init env config_arg cs
        = (Inl (OperationalException no_hyperopt_message), cs, []))
   \<and> (\<not> py_truthy (dict_get (config_or_empty config_arg) ''hyperopt_loss'') \<longrightarrow>
      HyperOptLossResolver_init env config_arg cs
        = (Inl (OperationalException no_hyperopt_loss_message), cs))"
  by (simp add: HyperOptResolver_init_def HyperOptLossResolver_init_def)

text \<open>
  With a search that raises when it is started: no configuration at all and an empty
  name give the "not set" error; a configured name reaches the search, which raises.
\<close>

theorem resolver_not_configured_witness:
  "HyperOptResolver_init raising_env None empty_store
     = (Inl (OperationalException no_hyperopt_message), empty_store, [])
   \<and> HyperOptLossResolver_init raising_env (Some [''hyperopt_loss'' \<mapsto> VStr '''']) empty_store
     = (Inl (OperationalException no_hyperopt_loss_message), empty_store)
   \<and> HyperOptResolver_init raising_env
        (Some [''hyperopt'' \<mapsto> VStr ''MyHyperOpt'',
               ''user_data_dir'' \<mapsto> VPath (Path [''/'', ''user_data''])])
        empty_store
     = (Inl (Raised ''search path touched''), empty_store, [])"
  using resolver_not_configured [of None raising_env empty_store]
    resolver_not_configured [of "Some [''hyperopt_loss'' \<mapsto> VStr '''']" raising_env empty_store]
  by (simp add: resolver_defs raising_env_def joinpath_def)

text \<open>
  C7, as amended. When the search path can be built and the search over it returns
  \<open>None\<close> for a truthy plugin name, construction fails with an \<open>OperationalException\<close>
  whose message is the resolver's "Impossible to load" text; the message contains the
  plugin name, and it is all the exception carries.
\<close>

theorem unmatched_plugin_error:
  assumes "hyperopt_abs_paths env config (dict_get config ''hyperopt_path'') = Inr abs_paths"
  shows "(config ''hyperopt'' = Some nm \<and> py_truthy nm
            \<and> load_object env cs abs_paths IHyperOpt nm [(''config'', config)] = (Inr None, cs')
          \<longrightarrow> HyperOptResolver_init env (Some config) cs
                = (Inl (OperationalException (hyperopt_not_found_message nm)), cs', []))
       \<and> (config ''hyperopt_loss'' = Some nm \<and> py_truthy nm
            \<and> load_object env cs abs_paths IHyperOptLoss nm [] = (Inr None, cs')
          \<longrightarrow> HyperOptLossResolver_init env (Some config) cs
                = (Inl (OperationalException (hyperoptloss_not_found_message nm)), cs'))
       \<and> sublist (py_str nm) (hyperopt_not_found_message nm)
       \<and> sublist (py_str nm) (hyperoptloss_not_found_message nm)"
  using assms
  by (simp add: HyperOptResolver_init_def HyperOptLossResolver_init_def
      HyperOptResolver_load_hyperopt_def HyperOptLossResolver_load_hyperoptloss_def
      config_or_empty_def dict_get_def dict_item_def
      name_in_hyperopt_not_found_message name_in_hyperoptloss_not_found_message)

theorem unmatched_plugin_error_witness:
  "HyperOptResolver_init no_match_env (Some missing_config) empty_store
     = (Inl (OperationalException
         ''Impossible to load Hyperopt 'Missing'. This class does not exist or contains Python code errors.''),
        empty_store, [])
   \<and> HyperOptLossResolver_init no_match_env (Some missing_config) empty_store
     = (Inl (OperationalException
         ''Impossible to load HyperoptLoss 'Missing'. This class does not exist or contains Python code errors.''),
        empty_store)"
  using unmatched_plugin_error [of no_match_env missing_config
      "[Path [''/'', ''user_data'', ''hyperopts''], Path [''/'', ''freqtrade'', ''optimize'']]"
      "VStr ''Missing''" empty_store empty_store]
  by (simp add: hyperopt_abs_paths_def dict_get_def dict_item_def no_match_env_def
      missing_config_def joinpath_def parent_def sample_module_file_def
      hyperopt_not_found_message_def hyperoptloss_not_found_message_def single_quoted_def)

text \<open>
  C7 as stated fails: the error does not carry the locations searched. For the class
  \<open>Missing\<close> the two locations \<open>/user_data/hyperopts\<close> and \<open>/freqtrade/optimize\<close> are
  searched, and neither occurs in the message of the exception raised.
\<close>

theorem not_found_error_lacks_locations_counterexample:
  "HyperOptResolver_init no_match_env (Some missing_config) empty_store
     = (Inl (OperationalException
         ''Impossible to load Hyperopt 'Missing'. This class does not exist or contains Python code errors.''),
        empty_store, [])
   \<and> hyperopt_abs_paths no_match_env missing_config (dict_get missing_config ''hyperopt_path'')
     = Inr [Path [''/'', ''user_data'', ''hyperopts''], Path [''/'', ''freqtrade'', ''optimize'']]
   \<and> \<not> sublist (path_str (Path [''/'', ''user_data'', ''hyperopts'']))
         ''Impossible to load Hyperopt 'Missing'. This class does not exist or contains Python code errors.''
   \<and> \<not> sublist (path_str (Path [''/'', ''freqtrade'', ''optimize'']))
         ''Impossible to load Hyperopt 'Missing'. This class does not exist or contains Python code errors.''"
  apply (intro conjI)
     apply (simp add: resolver_defs no_match_env_def missing_config_def joinpath_def parent_def
      sample_module_file_def hyperopt_not_found_message_def single_quoted_def)
    apply (simp add: resolver_defs no_match_env_def missing_config_def joinpath_def parent_def
      sample_module_file_def)
   apply code_simp
  apply code_simp
  done

text \<open>
  C8. The search path is the extra directory (resolved) when a truthy one is given,
  then \<open>hyperopts\<close> under the user data directory, then the built-in \<open>optimize\<close>
  directory (resolved), which is always last. Searched with the modelled
  \<open>_load_object\<close>, both resolvers return the instance of the first location in this
  order that has a matching class, whatever the later locations hold.
\<close>

theorem search_path_priority:
  assumes "config ''user_data_dir'' = Some (VPath user_data_dir)"
    and "py_truthy extra_dir \<longrightarrow> path_of extra_dir = Inr extra_path"
    and "abs_paths = (if py_truthy extra_dir then [resolve env extra_path] else [])
                     @ [joinpath user_data_dir ''hyperopts'',
                        resolve env (joinpath (parent (parent (module_file env))) ''optimize'')]"
    and "abs_paths = before @ p # after"
  shows "hyperopt_abs_paths env config extra_dir = Inr abs_paths
       \<and> ((\<forall>q\<in>set before. find (plugin_matches IHyperOpt nm) (fs q) = None)
            \<and> find (plugin_matches IHyperOpt nm) (fs p) = Some c
          \<longrightarrow> HyperOptResolver_load_hyperopt (env\<lparr>load_object := IResolver_load_object fs\<rparr>)
                  nm config extra_dir cs
                = (Inr (Instance (plugin_id c) (plugin_new c [(''config'', config)])), cs))
       \<and> ((\<forall>q\<in>set before. find (plugin_matches IHyperOptLoss nm) (fs q) = None)
            \<and> find (plugin_matches IHyperOptLoss nm) (fs p) = Some c
          \<longrightarrow> HyperOptLossResolver_load_hyperoptloss (env\<lparr>load_object := IResolver_load_object fs\<rparr>)
                  nm config extra_dir cs
                = (Inr (Instance (plugin_id c) (plugin_new c [])), cs))"
proof -
  have paths: "hyperopt_abs_paths env config extra_dir = Inr abs_paths"
    using assms(1-3) by (simp add: hyperopt_abs_paths_def dict_item_def)
  then have paths':
    "hyperopt_abs_paths (env\<lparr>load_object := IResolver_load_object fs\<rparr>) config extra_dir
       = Inr (before @ p # after)"
    using assms(4) by (simp add: hyperopt_abs_paths_load_object)
  show ?thesis
    using paths paths'
    by (simp add: HyperOptResolver_load_hyperopt_def HyperOptLossResolver_load_hyperoptloss_def
        load_object_first_match)
qed

text \<open>
  All three sample locations define a hyperopt class \<open>MyHyperOpt\<close>. With the extra
  directory the instance is of class 11 (the extra directory's); without it, of class
  21 (the user data directory's). The user data directory has no loss class of that
  name, so the loss resolver falls through to the built-in location (class 30).
\<close>

theorem search_path_priority_witness:
  "hyperopt_abs_paths sample_env sample_config (VStr ''/extra'')
     = Inr [extra_location, user_location, builtin_location]
   \<and> HyperOptResolver_load_hyperopt sample_env (VStr ''MyHyperOpt'') sample_config (VStr ''/extra'')
       empty_store = (Inr (Instance 11 Map.empty), empty_store)
   \<and> HyperOptResolver_load_hyperopt sample_env (VStr ''MyHyperOpt'') sample_config VNone
       empty_store = (Inr (Instance 21 Map.empty), empty_store)
   \<and> HyperOptLossResolver_load_hyperoptloss sample_env (VStr ''MyHyperOpt'') sample_config VNone
       empty_store = (Inr (Instance 30 Map.empty), empty_store)"
  using search_path_priority [of sample_config "Path [''/'', ''user_data'']" "VStr ''/extra''"
      extra_location "[extra_location, user_location, builtin_location]" sample_env "[]"
      extra_location "[user_location, builtin_location]" "VStr ''MyHyperOpt''" sample_fs
      "sample_plugin IHyperOpt 11" empty_store]
    search_path_priority [of sample_config "Path [''/'', ''user_data'']" VNone
      extra_location "[user_location, builtin_location]" sample_env "[]"
      user_location "[builtin_location]" "VStr ''MyHyperOpt''" sample_fs
      "sample_plugin IHyperOpt 21" empty_store]
    search_path_priority [of sample_config "Path [''/'', ''user_data'']" VNone
      extra_location "[user_location, builtin_location]" sample_env "[user_location]"
      builtin_location "[]" "VStr ''MyHyperOpt''" sample_fs
      "sample_plugin IHyperOptLoss 30" empty_store]
  by (simp add: sample_config_def sample_env_def sample_fs_def sample_plugin_def
      extra_location_def user_location_def builtin_location_def sample_module_file_def
      path_of_str_def joinpath_def parent_def plugin_matches_def)

text \<open>
  C9, as amended. After a matched plugin is instantiated: if the required operation
  \<open>hyperopt_loss_function\<close> is missing, \<open>HyperOptLossResolver\<close> fails with the contract
  error (the \<open>OperationalException\<close> "does not implement") when the configuration has a
  \<open>ticker_interval\<close>, and with \<open>KeyError\<close> when it has none, because the injection that
  reads it precedes the check; if an optional operation (\<open>populate_buy_trend\<close>,
  \<open>populate_sell_trend\<close>) is missing, only a warning is logged by \<open>HyperOptResolver\<close>,
  the fallback is recorded (the warning names the strategy's method), and resolution
  succeeds with the instance, with or without a \<open>ticker_interval\<close>.
\<close>

theorem contract_check:
  "(config ''hyperopt_loss'' = Some nm \<and> py_truthy nm
      \<and> HyperOptLossResolver_load_hyperoptloss env nm config
            (dict_get config ''hyperopt_path'') cs = (Inr ob, cs')
      \<and> \<not> py_hasattr cs' ob ''hyperopt_loss_function''
      \<and> config ''ticker_interval'' = Some ticker_interval
    \<longrightarrow> HyperOptLossResolver_init env (Some config) cs
          = (Inl (OperationalException (no_loss_function_message nm)),
             set_class_attr cs' ob ''ticker_interval'' (StrAttr (py_str ticker_interval))))
   \<and> (config ''hyperopt_loss'' = Some nm \<and> py_truthy nm
      \<and> HyperOptLossResolver_load_hyperoptloss env nm config
            (dict_get config ''hyperopt_path'') cs = (Inr ob, cs')
      \<and> config ''ticker_interval'' = None
    \<longrightarrow> HyperOptLossResolver_init env (Some config) cs
          = (Inl (KeyError ''ticker_interval''), cs'))
   \<and> (config ''hyperopt'' = Some nm \<and> py_truthy nm
      \<and> HyperOptResolver_load_hyperopt env nm config
            (dict_get config ''hyperopt_path'') cs = (Inr ob, cs')
    \<longrightarrow> HyperOptResolver_init env (Some config) cs
          = (Inr ob, cs',
             (if py_hasattr cs' ob ''populate_buy_trend'' then []
              else [no_populate_buy_trend_warning])
             @ (if py_hasattr cs' ob ''populate_sell_trend'' then []
                else [no_populate_sell_trend_warning])))"
  by (simp add: HyperOptResolver_init_def HyperOptLossResolver_init_def Let_def
      config_or_empty_def dict_get_def dict_item_def hasattr_set_class_attr_other)

text \<open>
  A loss instance whose class has no attributes is refused with the contract error
  under a configuration with \<open>ticker_interval\<close>, and with \<open>KeyError\<close> under one without.
  As a hyperopt whose class has \<open>populate_buy_trend\<close> only, the same instance is
  accepted with the warning for \<open>populate_sell_trend\<close>, also under the configuration
  without \<open>ticker_interval\<close>.
\<close>

theorem contract_check_witness:
  "HyperOptLossResolver_init (found_env plain_object) (Some sample_config) empty_store
     = (Inl (OperationalException
         ''Found hyperopt MyHyperOpt does not implement `hyperopt_loss_function`.''),
        set_class_attr empty_store plain_object ''ticker_interval'' (StrAttr ''5m''))
   \<and> HyperOptLossResolver_init (found_env plain_object) (Some config_without_ticker_interval)
        empty_store = (Inl (KeyError ''ticker_interval''), empty_store)
   \<and> HyperOptResolver_init (found_env plain_object) (Some sample_config) hyperopt_store
     = (Inr plain_object, hyperopt_store,
        [''Hyperopt class does not provide populate_sell_trend() method. Using populate_sell_trend from the strategy.''])
   \<and> HyperOptResolver_init (found_env plain_object) (Some config_without_ticker_interval)
        hyperopt_store
     = (Inr plain_object, hyperopt_store,
        [''Hyperopt class does not provide populate_sell_trend() method. Using populate_sell_trend from the strategy.''])"
  using contract_check [of sample_config "VStr ''MyHyperOpt''" "found_env plain_object"
      empty_store plain_object empty_store "VStr ''5m''"]
    contract_check [of config_without_ticker_interval "VStr ''MyLoss''" "found_env plain_object"
      empty_store plain_object empty_store]
    contract_check [of sample_config "VStr ''MyHyperOpt''" "found_env plain_object"
      hyperopt_store plain_object hyperopt_store]
    contract_check [of config_without_ticker_interval "VStr ''MyOpt''" "found_env plain_object"
      hyperopt_store plain_object hyperopt_store]
  by (simp add: HyperOptResolver_load_hyperopt_def HyperOptLossResolver_load_hyperoptloss_def
      hyperopt_abs_paths_def dict_get_def dict_item_def found_env_def sample_config_def
      config_without_ticker_interval_def
      plain_object_def py_hasattr_def py_getattr_def empty_store_def hyperopt_store_def
      joinpath_def path_of_str_def no_loss_function_message_def
      no_populate_sell_trend_warning_def)

text \<open>
  C9 as stated fails: with a configuration that has no \<open>ticker_interval\<close>, a loss
  instance without \<open>hyperopt_loss_function\<close> is loaded and construction fails with
  \<open>KeyError\<close>, raised by the statement before the check.
\<close>

theorem contract_check_counterexample:
  "\<not> py_hasattr empty_store plain_object ''hyperopt_loss_function''
   \<and> HyperOptLossResolver_load_hyperoptloss (found_env plain_object) (VStr ''MyLoss'')
        config_without_ticker_interval VNone empty_store = (Inr plain_object, empty_store)
   \<and> HyperOptLossResolver_init (found_env plain_object) (Some config_without_ticker_interval)
        empty_store = (Inl (KeyError ''ticker_interval''), empty_store)"
  by (simp add: resolver_defs found_env_def config_without_ticker_interval_def plain_object_def
      py_hasattr_def py_getattr_def empty_store_def joinpath_def)

text \<open>
  C10, as amended. When a loss plugin has been instantiated and the configuration has
  a \<open>ticker_interval\<close>, \<open>HyperOptLossResolver\<close> stores its string on the instance's class
  object and changes no other class; it does so before the check, so the class store
  is the mutated one whether construction then fails for a missing
  \<open>hyperopt_loss_function\<close> or succeeds; the instance returned is the one loaded. Every
  instance of that class whose own dictionary has no \<open>ticker_interval\<close> reads the
  injected value.
\<close>

theorem class_injection:
  assumes "config ''hyperopt_loss'' = Some nm" and "py_truthy nm"
    and "HyperOptLossResolver_load_hyperoptloss env nm config (dict_get config ''hyperopt_path'') cs
           = (Inr ob, cs')"
    and "config ''ticker_interval'' = Some ticker_interval"
    and "cs'' = set_class_attr cs' ob ''ticker_interval'' (StrAttr (py_str ticker_interval))"
  shows "snd (HyperOptLossResolver_init env (Some config) cs) = cs''
       \<and> cs'' (obj_class ob) ''ticker_interval'' = Some (StrAttr (py_str ticker_interval))
       \<and> (\<forall>c. c \<noteq> obj_class ob \<longrightarrow> cs'' c = cs' c)
       \<and> (\<forall>inst. obj_class inst = obj_class ob \<and> obj_dict inst ''ticker_interval'' = None
            \<longrightarrow> py_getattr cs'' inst ''ticker_interval'' = Some (StrAttr (py_str ticker_interval)))
       \<and> (\<not> py_hasattr cs' ob ''hyperopt_loss_function''
            \<longrightarrow> HyperOptLossResolver_init env (Some config) cs
                  = (Inl (OperationalException (no_loss_function_message nm)), cs''))
       \<and> (py_hasattr cs' ob ''hyperopt_loss_function''
            \<longrightarrow> HyperOptLossResolver_init env (Some config) cs = (Inr ob, cs''))"
proof -
  have init: "HyperOptLossResolver_init env (Some config) cs
      = (if \<not> py_hasattr cs' ob ''hyperopt_loss_function''
         then (Inl (OperationalException (no_loss_function_message nm)), cs'')
         else (Inr ob, cs''))"
    using assms
    by (simp add: HyperOptLossResolver_init_def Let_def config_or_empty_def dict_get_def
        dict_item_def hasattr_set_class_attr_other)
  have store: "cs'' (obj_class ob) ''ticker_interval'' = Some (StrAttr (py_str ticker_interval))"
    and frame: "\<forall>c. c \<noteq> obj_class ob \<longrightarrow> cs'' c = cs' c"
    using assms(5) by (simp_all add: set_class_attr_def)
  have observed:
    "\<forall>inst. obj_class inst = obj_class ob \<and> obj_dict inst ''ticker_interval'' = None
       \<longrightarrow> py_getattr cs'' inst ''ticker_interval'' = Some (StrAttr (py_str ticker_interval))"
    using store by (simp add: py_getattr_def)
  show ?thesis
    using init store frame observed by simp
qed

text \<open>
  Construction fails for the class without \<open>hyperopt_loss_function\<close>, and the class
  keeps the injected \<open>5m\<close>: an instance created earlier reads it, and so does the
  instance that was loaded.
\<close>

theorem class_injection_witness:
  "HyperOptLossResolver_init (found_env plain_object) (Some sample_config) empty_store
     = (Inl (OperationalException
         ''Found hyperopt MyHyperOpt does not implement `hyperopt_loss_function`.''),
        set_class_attr empty_store plain_object ''ticker_interval'' (StrAttr ''5m''))
   \<and> py_getattr (set_class_attr empty_store plain_object ''ticker_interval'' (StrAttr ''5m''))
        earlier_object ''ticker_interval'' = Some (StrAttr ''5m'')
   \<and> py_getattr (set_class_attr empty_store plain_object ''ticker_interval'' (StrAttr ''5m''))
        plain_object ''ticker_interval'' = Some (StrAttr ''5m'')
   \<and> py_getattr empty_store earlier_object ''ticker_interval'' = None"
  using class_injection [of sample_config "VStr ''MyHyperOpt''" "found_env plain_object"
      empty_store plain_object empty_store "VStr ''5m''"
      "set_class_attr empty_store plain_object ''ticker_interval'' (StrAttr ''5m'')"]
  by (simp add: HyperOptLossResolver_load_hyperoptloss_def hyperopt_abs_paths_def dict_get_def
      dict_item_def found_env_def sample_config_def plain_object_def earlier_object_def
      py_hasattr_def py_getattr_def empty_store_def set_class_attr_def joinpath_def
      path_of_str_def no_loss_function_message_def)

text \<open>
  C10 as stated fails for an instance that has a \<open>ticker_interval\<close> of its own: the
  class receives \<open>5m\<close>, and the instance still reads its own \<open>1h\<close>.
\<close>

theorem class_injection_counterexample:
  "HyperOptLossResolver_init (found_env shadowing_object) (Some sample_config) loss_store
     = (Inr shadowing_object,
        set_class_attr loss_store shadowing_object ''ticker_interval'' (StrAttr ''5m''))
   \<and> set_class_attr loss_store shadowing_object ''ticker_interval'' (StrAttr ''5m'')
        (obj_class shadowing_object) ''ticker_interval'' = Some (StrAttr ''5m'')
   \<and> py_getattr (set_class_attr loss_store shadowing_object ''ticker_interval'' (StrAttr ''5m''))
        shadowing_object ''ticker_interval'' = Some (StrAttr ''1h'')"
  by (simp add: resolver_defs found_env_def sample_config_def shadowing_object_def loss_store_def
      py_hasattr_def py_getattr_def set_class_attr_def joinpath_def path_of_str_def)

end
